theory Spec2Isabelle
  imports Main "HOL-Library.Word"
begin

unbundle bit_operations_syntax

section \<open>The upload handler of \<^verbatim>\<open>src/index.ts\<close>\<close>

text \<open>
  The repository is one HTTP handler, \<^verbatim>\<open>app.post('/upload', ...)\<close>. It reads a file from
  the request's form data, base64-encodes it, has the Protect.js client encrypt it, uploads
  the JSON of the result to Supabase Storage, downloads the same key again, decrypts it,
  decodes it and writes the bytes under \<^verbatim>\<open>uploads/\<close> in the working directory.

  The handler is embedded as a function of the request, of the local filesystem and of a
  \<^emph>\<open>world\<close> that fixes what every external collaborator answers. Each awaited call
  either resolves to a value (\<open>Inr\<close>) or rejects with an exception (\<open>Inl\<close>); the handler
  returns its HTTP response, the list of the calls it made (in order) and the filesystem
  it leaves behind.
\<close>

subsection \<open>Bytes and base64 (Node's \<^verbatim>\<open>Buffer\<close>)\<close>

type_synonym bytes = "8 word list"

text \<open>
  \<^verbatim>\<open>Buffer.from(arrayBuffer).toString('base64')\<close>: the alphabet of RFC 4648, three bytes
  to four characters, the last group padded with \<^verbatim>\<open>=\<close>. \<open>base64_table\<close> is the
  alphabet \<^verbatim>\<open>A-Z a-z 0-9 + /\<close> by character code.
\<close>

definition base64_table :: "8 word \<Rightarrow> char" where
  "base64_table i =
     (let n = unat i in
      if n < 26 then char_of (65 + n)
      else if n < 52 then char_of (71 + n)
      else if n < 62 then char_of (n - 4)
      else if n = 62 then char_of (43 :: nat)
      else char_of (47 :: nat))"

fun base64_encode :: "bytes \<Rightarrow> string" where
  "base64_encode (a # b # c # rest) =
     base64_table (drop_bit 2 a)
     # base64_table (push_bit 4 (a AND 3) OR drop_bit 4 b)
     # base64_table (push_bit 2 (b AND 15) OR drop_bit 6 c)
     # base64_table (c AND 63)
     # base64_encode rest"
| "base64_encode [a, b] =
     [base64_table (drop_bit 2 a),
      base64_table (push_bit 4 (a AND 3) OR drop_bit 4 b),
      base64_table (push_bit 2 (b AND 15)),
      CHR ''='']"
| "base64_encode [a] =
     [base64_table (drop_bit 2 a),
      base64_table (push_bit 4 (a AND 3)),
      CHR ''='', CHR ''='']"
| "base64_encode [] = []"

text \<open>
  \<^verbatim>\<open>Buffer.from(text, 'base64')\<close> never throws on a string: decoding stops at the first
  \<^verbatim>\<open>=\<close>, characters outside the alphabet are skipped, \<^verbatim>\<open>-\<close> and \<^verbatim>\<open>_\<close> (the URL
  alphabet) count as \<^verbatim>\<open>+\<close> and \<^verbatim>\<open>/\<close>, and an incomplete last group gives the bytes
  that are complete.
\<close>

definition unbase64 :: "char \<Rightarrow> 8 word option" where
  "unbase64 c =
     (let n = (of_char c :: nat) in
      if 65 \<le> n \<and> n \<le> 90 then Some (of_nat (n - 65))
      else if 97 \<le> n \<and> n \<le> 122 then Some (of_nat (n - 71))
      else if 48 \<le> n \<and> n \<le> 57 then Some (of_nat (n + 4))
      else if n = 43 \<or> n = 45 then Some 62
      else if n = 47 \<or> n = 95 then Some 63
      else None)"

fun decode_groups :: "8 word list \<Rightarrow> bytes" where
  "decode_groups (s0 # s1 # s2 # s3 # rest) =
     (push_bit 2 (s0 AND 63) OR drop_bit 4 (s1 AND 48))
     # (push_bit 4 (s1 AND 15) OR drop_bit 2 (s2 AND 60))
     # (push_bit 6 (s2 AND 3) OR (s3 AND 63))
     # decode_groups rest"
| "decode_groups [s0, s1, s2] =
     [push_bit 2 (s0 AND 63) OR drop_bit 4 (s1 AND 48),
      push_bit 4 (s1 AND 15) OR drop_bit 2 (s2 AND 60)]"
| "decode_groups [s0, s1] = [push_bit 2 (s0 AND 63) OR drop_bit 4 (s1 AND 48)]"
| "decode_groups _ = []"

definition base64_decode :: "string \<Rightarrow> bytes" where
  "base64_decode s =
     decode_groups (List.map_filter unbase64 (takeWhile (\<lambda>c. c \<noteq> CHR ''='') s))"

subsection \<open>The request\<close>

text \<open>
  A \<^verbatim>\<open>File\<close> of the form data: the handler reads \<^verbatim>\<open>file.name\<close>, \<^verbatim>\<open>file.type\<close>,
  \<^verbatim>\<open>file.size\<close> and \<^verbatim>\<open>await file.arrayBuffer()\<close>.
\<close>

record web_file =
  name :: string
  type :: string
  size_f :: nat
  arrayBuffer :: bytes

text \<open>An entry of a \<^verbatim>\<open>FormData\<close> is a string or a \<^verbatim>\<open>File\<close>; \<^verbatim>\<open>get\<close> returns the first
  entry of that name, or \<^verbatim>\<open>null\<close>.\<close>

datatype form_value = FormString string | FormFile web_file

type_synonym form_data = "(string \<times> form_value) list"

definition formData_get :: "form_data \<Rightarrow> string \<Rightarrow> form_value option" where
  "formData_get fd k = map_of fd k"

text \<open>A thrown \<^verbatim>\<open>Error\<close>; the handler's \<^verbatim>\<open>catch\<close> reads its \<^verbatim>\<open>message\<close>.\<close>

datatype js_error = Error (message: string)

text \<open>\<^verbatim>\<open>await c.req.formData()\<close> rejects when the body is not form data.\<close>

record request =
  formData :: "js_error + form_data"

subsection \<open>The response\<close>

datatype json_body =
    ErrorBody string
  | ErrorDetailsBody string string
  | UploadedBody string string string nat

text \<open>
  \<open>ErrorBody e\<close> is \<^verbatim>\<open>{ error: e }\<close>, \<open>ErrorDetailsBody e d\<close> is
  \<^verbatim>\<open>{ error: e, details: d }\<close> and \<open>UploadedBody m n t s\<close> is
  \<^verbatim>\<open>{ message: m, file: { name: n, type: t, size: s } }\<close>.
\<close>

record response =
  status :: nat
  body :: json_body

definition json :: "json_body \<Rightarrow> nat \<Rightarrow> response" where
  "json b st = \<lparr>status = st, body = b\<rparr>"

subsection \<open>The encryption client (\<^verbatim>\<open>@cipherstash/protect\<close>)\<close>

text \<open>
  The client's operations resolve to a result object that holds either \<^verbatim>\<open>failure\<close> or
  \<^verbatim>\<open>data\<close>; the handler tests \<^verbatim>\<open>'failure' in result\<close>. The encrypted payload is an
  opaque JSON value of type \<open>'j\<close>. The decrypted \<^verbatim>\<open>data\<close> is a string or \<^verbatim>\<open>null\<close>.
\<close>

datatype 'a result = Failure string | Data 'a

type_synonym table = "string \<times> string list"

definition uploads :: table where
  "uploads = (''uploads'', [''file''])"

record 'j protect_client =
  encrypt :: "string \<Rightarrow> table \<times> string \<Rightarrow> js_error + 'j result"
  decrypt :: "'j \<Rightarrow> js_error + string option result"

subsection \<open>The object store (\<^verbatim>\<open>supabase.storage\<close>)\<close>

record blob =
  blob_text :: string
  blob_type :: string

record text_file =
  file_name :: string
  file_type :: string
  file_text :: string

definition new_Blob :: "string \<Rightarrow> string \<Rightarrow> blob" where
  "new_Blob txt ty = \<lparr>blob_text = txt, blob_type = ty\<rparr>"

definition new_File :: "blob \<Rightarrow> string \<Rightarrow> string \<Rightarrow> text_file" where
  "new_File b nm ty = \<lparr>file_name = nm, file_type = ty, file_text = blob_text b\<rparr>"

text \<open>Both storage operations resolve to \<^verbatim>\<open>{ data, error }\<close>.\<close>

record 'a storage_response =
  data :: "'a option"
  error :: "string option"

subsection \<open>Paths and the local filesystem (\<^verbatim>\<open>node:path\<close>, \<^verbatim>\<open>node:fs/promises\<close>)\<close>

text \<open>
  An absolute path is the list of its components. \<^verbatim>\<open>join(dir, s)\<close> splits \<open>s\<close> at
  \<^verbatim>\<open>/\<close> and normalises: empty components and \<^verbatim>\<open>.\<close> are dropped, \<^verbatim>\<open>..\<close> removes the
  component before it (and nothing at the root), and a separator at the end of \<open>s\<close> is
  kept, here as a last empty component.
\<close>

type_synonym path = "string list"

fun split_on :: "char \<Rightarrow> string \<Rightarrow> string list" where
  "split_on c [] = [[]]"
| "split_on c (x # xs) =
     (if x = c then [] # split_on c xs
      else (case split_on c xs of
              [] \<Rightarrow> [[x]]
            | seg # segs \<Rightarrow> (x # seg) # segs))"

fun normalize_from :: "path \<Rightarrow> string list \<Rightarrow> path" where
  "normalize_from acc [] = rev acc"
| "normalize_from acc (seg # segs) =
     (if seg = [] \<or> seg = ''.'' then normalize_from acc segs
      else if seg = ''..'' then
        normalize_from (case acc of [] \<Rightarrow> [] | _ # up \<Rightarrow> up) segs
      else normalize_from (seg # acc) segs)"

definition join :: "path \<Rightarrow> string \<Rightarrow> path" where
  "join dir s =
     (let segs = dir @ split_on CHR ''/'' s;
          trailingSeparator = (s \<noteq> [] \<and> last s = CHR ''/'')
      in normalize_from [] segs @ (if trailingSeparator then [[]] else []))"

text \<open>
  The filesystem: the directories that exist and the contents of the regular files.
  \<^verbatim>\<open>writeFile(path, data)\<close> creates or replaces the file and never creates a
  directory. It rejects a path with a NUL character, a component longer than 255 or a
  path of 4096 characters or more; then the path is resolved component by component, and
  the first ancestor that is not a directory gives \<^verbatim>\<open>ENOTDIR\<close> (a regular file) or
  \<^verbatim>\<open>ENOENT\<close> (nothing there); last, a path that names a directory, or ends in a
  separator, gives \<^verbatim>\<open>EISDIR\<close>. The message of a filesystem error ends with the
  operation and the path; the message for a NUL character is Node's up to the value it
  prints after \<^verbatim>\<open>Received\<close>.
\<close>

record fs =
  dirs :: "path set"
  files :: "path \<rightharpoonup> bytes"

definition is_dir :: "fs \<Rightarrow> path \<Rightarrow> bool" where
  "is_dir f p = (p = [] \<or> p \<in> dirs f)"

text \<open>The proper prefixes of a path, the root first.\<close>

fun ancestors :: "path \<Rightarrow> path list" where
  "ancestors [] = []"
| "ancestors (c # cs) = [] # map ((#) c) (ancestors cs)"

definition render :: "path \<Rightarrow> string" where
  "render p = (if p = [] then ''/'' else concat (map (\<lambda>c. CHR ''/'' # c) p))"

definition fs_error :: "string \<Rightarrow> path \<Rightarrow> js_error" where
  "fs_error code p = Error (code @ '', open '' @ [CHR 0x27] @ render p @ [CHR 0x27])"

definition writeFile :: "fs \<Rightarrow> path \<Rightarrow> bytes \<Rightarrow> js_error + fs" where
  "writeFile f p buf =
     (let trailingSeparator = (p \<noteq> [] \<and> last p = []);
          q = (if trailingSeparator then butlast p else p)
      in
      if \<exists>c \<in> set p. CHR 0x00 \<in> set c then
        Inl (Error (''The argument '' @ [CHR 0x27] @ ''path'' @ [CHR 0x27]
                    @ '' must be a string, Uint8Array, or URL without null bytes''))
      else if (\<exists>c \<in> set p. 255 < length c) \<or> 4096 \<le> length (render p) then
        Inl (fs_error ''ENAMETOOLONG: name too long'' p)
      else
        (case find (\<lambda>a. \<not> is_dir f a) (ancestors q) of
           Some a \<Rightarrow>
             Inl (fs_error (if a \<in> dom (files f) then ''ENOTDIR: not a directory''
                            else ''ENOENT: no such file or directory'') p)
         | None \<Rightarrow>
             if is_dir f q \<or> trailingSeparator then
               Inl (fs_error (if q \<in> dom (files f) then ''ENOTDIR: not a directory''
                              else ''EISDIR: illegal operation on a directory'') p)
             else Inr (f\<lparr>files := (files f)(p \<mapsto> buf)\<rparr>)))"

text \<open>\<open>below d p\<close>: the path \<open>p\<close> lies inside the directory \<open>d\<close>.\<close>

definition below :: "path \<Rightarrow> path \<Rightarrow> bool" where
  "below d p = (length d < length p \<and> take (length d) p = d)"

subsection \<open>The world\<close>

text \<open>
  What the collaborators answer when they are called: \<^verbatim>\<open>protect({ schemas })\<close> resolves
  to a client or rejects; \<^verbatim>\<open>supabase.storage.from(bucket).upload(path, file)\<close> and
  \<^verbatim>\<open>.download(path)\<close>; \<^verbatim>\<open>JSON.stringify\<close> and \<^verbatim>\<open>JSON.parse\<close> (which throws on
  text that is not JSON); \<^verbatim>\<open>process.cwd()\<close>.
\<close>

record 'j world =
  protect :: "table list \<Rightarrow> js_error + 'j protect_client"
  storage_upload :: "string \<Rightarrow> string \<Rightarrow> text_file \<Rightarrow> js_error + string storage_response"
  storage_download :: "string \<Rightarrow> string \<Rightarrow> js_error + blob storage_response"
  JSON_stringify :: "'j \<Rightarrow> string"
  JSON_parse :: "string \<Rightarrow> js_error + 'j"
  cwd :: path

subsection \<open>The calls the handler makes\<close>

datatype 'j call =
    CallProtect "table list"
  | CallEncrypt string "table \<times> string"
  | CallUpload string string text_file
  | CallDownload string string
  | CallDecrypt 'j
  | CallWriteFile path bytes
  | ConsoleLog string string nat nat nat
  | ConsoleError js_error

type_synonym ('a, 'j) run = "'a \<times> 'j call list \<times> fs"

definition response_of :: "('a, 'j) run \<Rightarrow> 'a" where
  "response_of r = fst r"

definition calls_of :: "('a, 'j) run \<Rightarrow> 'j call list" where
  "calls_of r = fst (snd r)"

definition fs_of :: "('a, 'j) run \<Rightarrow> fs" where
  "fs_of r = snd (snd r)"

text \<open>\<open>after_call c r\<close>: the call \<open>c\<close> is made, then the handler goes on as \<open>r\<close>.\<close>

definition after_call :: "'j call \<Rightarrow> ('a, 'j) run \<Rightarrow> ('a, 'j) run" where
  "after_call c r = (fst r, c # fst (snd r), snd (snd r))"

text \<open>What \<^verbatim>\<open>Buffer.from(null, 'base64')\<close> throws.\<close>

definition null_argument :: js_error where
  "null_argument =
     Error (''The first argument must be of type string or an instance of Buffer, ''
            @ ''ArrayBuffer, or Array or an Array-like Object. Received null'')"

definition bad_input :: response where
  "bad_input = json (ErrorBody ''No file provided or invalid file format'') 400"

subsection \<open>The handler\<close>

text \<open>
  The body of the \<^verbatim>\<open>try\<close> block, statement by statement. \<open>Inl\<close> is an exception on its
  way to the \<^verbatim>\<open>catch\<close>; \<open>Inr\<close> is a response returned. The result of the upload,
  \<^verbatim>\<open>{ data, error }\<close>, is bound and never read, as is \<^verbatim>\<open>downloadError\<close>.
\<close>

definition upload_try ::
  "'j world \<Rightarrow> fs \<Rightarrow> request \<Rightarrow> (js_error + response, 'j) run" where
  "upload_try w f req =
   after_call (CallProtect [uploads])
   (case protect w [uploads] of
      Inl ex \<Rightarrow> (Inl ex, [], f)
    | Inr protectClient \<Rightarrow>
   (case formData req of
      Inl ex \<Rightarrow> (Inl ex, [], f)
    | Inr fd \<Rightarrow>
   (case formData_get fd ''file'' of
      None \<Rightarrow> (Inr bad_input, [], f)
    | Some (FormString s) \<Rightarrow> (Inr bad_input, [], f)
    | Some (FormFile file) \<Rightarrow>
   (let base64String = base64_encode (arrayBuffer file) in
    after_call (CallEncrypt base64String (uploads, ''file''))
   (case encrypt protectClient base64String (uploads, ''file'') of
      Inl ex \<Rightarrow> (Inl ex, [], f)
    | Inr (Failure _) \<Rightarrow> (Inr (json (ErrorBody ''Failed to encrypt file'') 500), [], f)
    | Inr (Data encrypted) \<Rightarrow>
   (let blob = new_Blob (JSON_stringify w encrypted) ''application/json'';
        fileToUpload = new_File blob (name file @ ''.encrypted'') ''application/json''
    in
    after_call (CallUpload ''uploads'' (name file @ ''.encrypted'') fileToUpload)
   (case storage_upload w ''uploads'' (name file @ ''.encrypted'') fileToUpload of
      Inl ex \<Rightarrow> (Inl ex, [], f)
    | Inr uploaded \<Rightarrow>
    after_call (CallDownload ''uploads'' (name file @ ''.encrypted''))
   (case storage_download w ''uploads'' (name file @ ''.encrypted'') of
      Inl ex \<Rightarrow> (Inl ex, [], f)
    | Inr downloaded \<Rightarrow>
   (case data downloaded of
      None \<Rightarrow> (Inr (json (ErrorBody ''Failed to download file'') 500), [], f)
    | Some downloadedFile \<Rightarrow>
   (case JSON_parse w (blob_text downloadedFile) of
      Inl ex \<Rightarrow> (Inl ex, [], f)
    | Inr downloadedJson \<Rightarrow>
    after_call (CallDecrypt downloadedJson)
   (case decrypt protectClient downloadedJson of
      Inl ex \<Rightarrow> (Inl ex, [], f)
    | Inr (Failure _) \<Rightarrow> (Inr (json (ErrorBody ''Failed to decrypt file'') 500), [], f)
    | Inr (Data None) \<Rightarrow>
        (Inl null_argument, [], f)
    | Inr (Data (Some decrypted)) \<Rightarrow>
   (let buffer = base64_decode decrypted;
        uploadsDir = join (cwd w) ''uploads'';
        target = join uploadsDir (name file)
    in
    after_call (CallWriteFile target buffer)
   (case writeFile f target buffer of
      Inl ex \<Rightarrow> (Inl ex, [], f)
    | Inr f' \<Rightarrow>
    after_call
      (ConsoleLog (name file) (type file) (size_f file)
         (length (arrayBuffer file)) (length buffer))
      (Inr (json (UploadedBody ''File uploaded successfully''
                    (name file) (type file) (size_f file)) 200),
       [], f'))))))))))))))"

text \<open>
  The handler: the \<^verbatim>\<open>try\<close> block, and the \<^verbatim>\<open>catch\<close> that logs the exception and
  answers 500 with its message.
\<close>

definition upload_handler :: "'j world \<Rightarrow> fs \<Rightarrow> request \<Rightarrow> (response, 'j) run" where
  "upload_handler w f req =
     (case upload_try w f req of
        (Inr res, cs, f') \<Rightarrow> (res, cs, f')
      | (Inl err, cs, f') \<Rightarrow>
          (json (ErrorDetailsBody ''Failed to upload file'' (message err)) 500,
           cs @ [ConsoleError err], f'))"

subsection \<open>Names for the values the handler computes\<close>

abbreviation plaintext :: "web_file \<Rightarrow> string" where
  "plaintext file \<equiv> base64_encode (arrayBuffer file)"

abbreviation storage_key :: "web_file \<Rightarrow> string" where
  "storage_key file \<equiv> name file @ ''.encrypted''"

abbreviation file_to_upload :: "'j world \<Rightarrow> web_file \<Rightarrow> 'j \<Rightarrow> text_file" where
  "file_to_upload w file encrypted \<equiv>
     new_File (new_Blob (JSON_stringify w encrypted) ''application/json'')
       (storage_key file) ''application/json''"

abbreviation uploads_dir :: "'j world \<Rightarrow> path" where
  "uploads_dir w \<equiv> join (cwd w) ''uploads''"

abbreviation target_path :: "'j world \<Rightarrow> web_file \<Rightarrow> path" where
  "target_path w file \<equiv> join (uploads_dir w) (name file)"

abbreviation caught :: "js_error \<Rightarrow> response" where
  "caught err \<equiv> json (ErrorDetailsBody ''Failed to upload file'' (message err)) 500"

abbreviation uploaded :: "web_file \<Rightarrow> response" where
  "uploaded file \<equiv>
     json (UploadedBody ''File uploaded successfully'' (name file) (type file) (size_f file)) 200"

text \<open>The kinds of call, to say which calls a run does not make.\<close>

fun is_upload :: "'j call \<Rightarrow> bool" where
  "is_upload (CallUpload _ _ _) = True"
| "is_upload _ = False"

fun is_decrypt :: "'j call \<Rightarrow> bool" where
  "is_decrypt (CallDecrypt _) = True"
| "is_decrypt _ = False"

fun is_writeFile :: "'j call \<Rightarrow> bool" where
  "is_writeFile (CallWriteFile _ _) = True"
| "is_writeFile _ = False"

subsection \<open>Example inputs\<close>

text \<open>
  A client whose payload is the plaintext behind a marker character, so that decrypting
  an encrypted text gives the text back; a client that reports failure; a client whose
  initialisation fails. \<^verbatim>\<open>JSON.stringify\<close> and \<^verbatim>\<open>JSON.parse\<close> of the example worlds
  are the identity on these payloads.
\<close>

definition marker_client :: "string protect_client" where
  "marker_client =
     \<lparr>encrypt = (\<lambda>s opts. Inr (Data (CHR ''#'' # s))),
      decrypt = (\<lambda>j. case j of
                         [] \<Rightarrow> Inr (Failure ''not an encrypted payload'')
                       | c # s \<Rightarrow> if c = CHR ''#'' then Inr (Data (Some s))
                                  else Inr (Failure ''not an encrypted payload''))\<rparr>"

definition failing_client :: "string protect_client" where
  "failing_client =
     \<lparr>encrypt = (\<lambda>s opts. Inr (Failure ''encryption failed'')),
      decrypt = (\<lambda>j. Inr (Failure ''decryption failed''))\<rparr>"

definition example_world ::
  "(js_error + string protect_client) \<Rightarrow> string storage_response \<Rightarrow> blob storage_response
     \<Rightarrow> string world" where
  "example_world client up down =
     \<lparr>protect = (\<lambda>schemas. client),
      storage_upload = (\<lambda>bucket key body. Inr up),
      storage_download = (\<lambda>bucket key. Inr down),
      JSON_stringify = (\<lambda>j. j),
      JSON_parse = (\<lambda>txt. Inr txt),
      cwd = [''app'']\<rparr>"

definition stored :: "string storage_response" where
  "stored = \<lparr>data = Some ''a.txt.encrypted'', error = None\<rparr>"

definition already_exists :: "string storage_response" where
  "already_exists = \<lparr>data = None, error = Some ''The resource already exists''\<rparr>"

definition found :: "string \<Rightarrow> blob storage_response" where
  "found txt = \<lparr>data = Some (new_Blob txt ''application/json''), error = None\<rparr>"

definition not_found :: "blob storage_response" where
  "not_found = \<lparr>data = None, error = Some ''Object not found''\<rparr>"

definition example_file :: web_file where
  "example_file =
     \<lparr>name = ''a.txt'', type = ''text/plain'', size_f = 3, arrayBuffer = [77, 97, 110]\<rparr>"

definition example_request :: request where
  "example_request = \<lparr>formData = Inr [(''file'', FormFile example_file)]\<rparr>"

definition example_fs :: fs where
  "example_fs = \<lparr>dirs = {[''app''], [''app'', ''uploads'']}, files = Map.empty\<rparr>"

definition fs_without_uploads :: fs where
  "fs_without_uploads = \<lparr>dirs = {[''app'']}, files = Map.empty\<rparr>"

section \<open>Base64 decoding inverts encoding\<close>

lemma byte_masks:
  "(3::8 word) = mask 2" "(15::8 word) = mask 4" "(63::8 word) = mask 6"
  "(48::8 word) = push_bit 4 (mask 2)" "(60::8 word) = push_bit 2 (mask 4)"
  by (simp_all add: mask_eq_exp_minus_1)

lemma shift_back:
  "Suc (Suc (n - 2)) = (if 2 \<le> n then n else 2)"
  "2 + (n - 2) = (if 2 \<le> n then n else 2)"
  "4 + (n - 4) = (if 4 \<le> n then n else 4)"
  "6 + (n - 6) = (if 6 \<le> n then n else 6)"
  by auto

text \<open>The three bytes of a group are recovered from its four sextets, bit by bit.\<close>

lemma first_byte:
  "push_bit 2 (drop_bit 2 a AND 63)
     OR drop_bit 4 ((push_bit 4 (a AND 3) OR drop_bit 4 b) AND 48) = (a::8 word)"
  unfolding byte_masks
  by (rule bit_word_eqI) (auto simp: bit_simps shift_back split: if_splits)

lemma second_byte:
  "push_bit 4 ((push_bit 4 (a AND 3) OR drop_bit 4 b) AND 15)
     OR drop_bit 2 ((push_bit 2 (b AND 15) OR drop_bit 6 c) AND 60) = (b::8 word)"
  unfolding byte_masks
  by (rule bit_word_eqI) (auto simp: bit_simps shift_back split: if_splits)

lemma third_byte:
  "push_bit 6 ((push_bit 2 (b AND 15) OR drop_bit 6 c) AND 3) OR ((c AND 63) AND 63)
     = (c::8 word)"
  unfolding byte_masks
  by (rule bit_word_eqI) (auto simp: bit_simps shift_back split: if_splits)

lemma first_byte_padded:
  "push_bit 2 (drop_bit 2 a AND 63) OR drop_bit 4 (push_bit 4 (a AND 3) AND 48) = (a::8 word)"
  unfolding byte_masks
  by (rule bit_word_eqI) (auto simp: bit_simps shift_back split: if_splits)

lemma second_byte_padded:
  "push_bit 4 ((push_bit 4 (a AND 3) OR drop_bit 4 b) AND 15)
     OR drop_bit 2 (push_bit 2 (b AND 15) AND 60) = (b::8 word)"
  unfolding byte_masks
  by (rule bit_word_eqI) (auto simp: bit_simps shift_back split: if_splits)

text \<open>Every sextet the encoder looks up is below 64.\<close>

lemma sextet_bound: "x AND mask 6 = x \<Longrightarrow> x < (64::8 word)"
  using and_mask_less' [of 6 x] by simp

lemma sextet1: "drop_bit 2 (a::8 word) < 64"
  by (rule sextet_bound, rule bit_word_eqI) (auto simp: bit_simps dest: bit_imp_le_length)

lemma sextet2: "push_bit 4 (a AND 3) OR drop_bit 4 b < (64::8 word)"
  unfolding byte_masks
  by (rule sextet_bound, rule bit_word_eqI) (auto simp: bit_simps dest: bit_imp_le_length)

lemma sextet2_padded: "push_bit 4 (a AND 3) < (64::8 word)"
  unfolding byte_masks
  by (rule sextet_bound, rule bit_word_eqI) (auto simp: bit_simps dest: bit_imp_le_length)

lemma sextet3: "push_bit 2 (b AND 15) OR drop_bit 6 c < (64::8 word)"
  unfolding byte_masks
  by (rule sextet_bound, rule bit_word_eqI) (auto simp: bit_simps dest: bit_imp_le_length)

lemma sextet3_padded: "push_bit 2 (b AND 15) < (64::8 word)"
  unfolding byte_masks
  by (rule sextet_bound, rule bit_word_eqI) (auto simp: bit_simps dest: bit_imp_le_length)

lemma sextet4: "(c::8 word) AND 63 < 64"
  unfolding byte_masks
  by (rule sextet_bound, rule bit_word_eqI) (auto simp: bit_simps dest: bit_imp_le_length)

text \<open>The decoding table inverts the alphabet, and the alphabet has no padding character.\<close>

lemma unbase64_table:
  assumes "x < 64"
  shows "unbase64 (base64_table x) = Some x"
proof -
  define n where "n = unat x"
  have n: "n < 64" and x: "x = of_nat n"
    using assms by (simp_all add: n_def word_less_nat_alt)
  consider "n < 26" | "26 \<le> n" "n < 52" | "52 \<le> n" "n < 62" | "n = 62" | "n = 63"
    using n by linarith
  then have "unbase64 (base64_table (of_nat n :: 8 word)) = Some (of_nat n)"
    by cases (auto simp: base64_table_def unbase64_def Let_def unat_of_nat)
  then show ?thesis by (simp add: x)
qed

lemma table_not_padding: "base64_table x \<noteq> CHR ''=''"
proof -
  have "(of_char (base64_table x) :: nat) \<noteq> 61"
    by (auto simp: base64_table_def Let_def)
  then show ?thesis by auto
qed

lemma takeWhile_table:
  "takeWhile (\<lambda>c. c \<noteq> CHR ''='') (base64_table x # s) =
     base64_table x # takeWhile (\<lambda>c. c \<noteq> CHR ''='') s"
  by (simp add: table_not_padding)

lemma takeWhile_padding: "takeWhile (\<lambda>c. c \<noteq> CHR ''='') (CHR ''='' # s) = []"
  by simp

lemma map_filter_table:
  "x < 64 \<Longrightarrow> List.map_filter unbase64 (base64_table x # s) = x # List.map_filter unbase64 s"
  by (simp add: List.map_filter_simps unbase64_table)

lemma decode_full_group:
  "decode_groups (drop_bit 2 a # (push_bit 4 (a AND 3) OR drop_bit 4 b)
      # (push_bit 2 (b AND 15) OR drop_bit 6 c) # (c AND 63) # rest)
   = a # b # c # decode_groups rest"
  by (simp only: decode_groups.simps first_byte second_byte third_byte)

lemma decode_two_bytes:
  "decode_groups [drop_bit 2 a, push_bit 4 (a AND 3) OR drop_bit 4 b, push_bit 2 (b AND 15)]
   = [a, b]"
  by (simp only: decode_groups.simps first_byte second_byte_padded)

lemma decode_one_byte:
  "decode_groups [drop_bit 2 a, push_bit 4 (a AND 3)] = [a]"
  by (simp only: decode_groups.simps first_byte_padded)

lemma decode_encoded_group:
  "base64_decode (base64_table (drop_bit 2 a)
     # base64_table (push_bit 4 (a AND 3) OR drop_bit 4 b)
     # base64_table (push_bit 2 (b AND 15) OR drop_bit 6 c)
     # base64_table (c AND 63) # s) = a # b # c # base64_decode s"
  by (simp only: base64_decode_def takeWhile_table map_filter_table
      sextet1 sextet2 sextet3 sextet4 decode_full_group)

lemma base64_roundtrip: "base64_decode (base64_encode bs) = bs"
proof (induction bs rule: base64_encode.induct)
  case (1 a b c rest)
  then show ?case by (simp only: base64_encode.simps decode_encoded_group)
next
  case (2 a b)
  show ?case
    by (simp only: base64_encode.simps base64_decode_def takeWhile_table takeWhile_padding
        map_filter_table sextet1 sextet2 sextet3_padded List.map_filter_simps(1)
        decode_two_bytes)
next
  case (3 a)
  show ?case
    by (simp only: base64_encode.simps base64_decode_def takeWhile_table takeWhile_padding
        map_filter_table sextet1 sextet2_padded List.map_filter_simps(1) decode_one_byte)
next
  case 4
  show ?case by (simp add: base64_decode_def List.map_filter_simps)
qed

section \<open>The runs of the handler\<close>

lemmas handler_defs = upload_handler_def upload_try_def after_call_def Let_def

lemmas run_defs = response_of_def calls_of_def fs_of_def

text \<open>
  Every run of the handler is one of fifteen: fourteen ways to leave early, each with the
  response, the calls made so far and the filesystem untouched, and the run that writes
  the file.
\<close>

lemma upload_handler_cases:
  obtains
    (protect_rejects) ex where
      "protect w [uploads] = Inl ex"
      "upload_handler w f req =
         (caught ex, [CallProtect [uploads], ConsoleError ex], f)"
  | (formData_rejects) client ex where
      "protect w [uploads] = Inr client"
      "formData req = Inl ex"
      "upload_handler w f req =
         (caught ex, [CallProtect [uploads], ConsoleError ex], f)"
  | (no_file) client fd where
      "protect w [uploads] = Inr client"
      "formData req = Inr fd"
      "formData_get fd ''file'' = None"
      "upload_handler w f req =
         (bad_input, [CallProtect [uploads]], f)"
  | (not_a_file) client fd strv where
      "protect w [uploads] = Inr client"
      "formData req = Inr fd"
      "formData_get fd ''file'' = Some (FormString strv)"
      "upload_handler w f req =
         (bad_input, [CallProtect [uploads]], f)"
  | (encrypt_rejects) client fd fl ex where
      "protect w [uploads] = Inr client"
      "formData req = Inr fd"
      "formData_get fd ''file'' = Some (FormFile fl)"
      "encrypt client (plaintext fl) (uploads, ''file'') = Inl ex"
      "upload_handler w f req =
         (caught ex, [CallProtect [uploads], CallEncrypt (plaintext fl) (uploads, ''file''), ConsoleError ex], f)"
  | (encrypt_fails) client fd fl m where
      "protect w [uploads] = Inr client"
      "formData req = Inr fd"
      "formData_get fd ''file'' = Some (FormFile fl)"
      "encrypt client (plaintext fl) (uploads, ''file'') = Inr (Failure m)"
      "upload_handler w f req =
         (json (ErrorBody ''Failed to encrypt file'') 500,
          [CallProtect [uploads], CallEncrypt (plaintext fl) (uploads, ''file'')], f)"
  | (upload_rejects) client fd fl e ex where
      "protect w [uploads] = Inr client"
      "formData req = Inr fd"
      "formData_get fd ''file'' = Some (FormFile fl)"
      "encrypt client (plaintext fl) (uploads, ''file'') = Inr (Data e)"
      "storage_upload w ''uploads'' (storage_key fl) (file_to_upload w fl e) = Inl ex"
      "upload_handler w f req =
         (caught ex,
          [CallProtect [uploads], CallEncrypt (plaintext fl) (uploads, ''file''),
           CallUpload ''uploads'' (storage_key fl) (file_to_upload w fl e), ConsoleError ex], f)"
  | (download_rejects) client fd fl e up ex where
      "protect w [uploads] = Inr client"
      "formData req = Inr fd"
      "formData_get fd ''file'' = Some (FormFile fl)"
      "encrypt client (plaintext fl) (uploads, ''file'') = Inr (Data e)"
      "storage_upload w ''uploads'' (storage_key fl) (file_to_upload w fl e) = Inr up"
      "storage_download w ''uploads'' (storage_key fl) = Inl ex"
      "upload_handler w f req =
         (caught ex,
          [CallProtect [uploads], CallEncrypt (plaintext fl) (uploads, ''file''),
           CallUpload ''uploads'' (storage_key fl) (file_to_upload w fl e),
           CallDownload ''uploads'' (storage_key fl), ConsoleError ex], f)"
  | (download_absent) client fd fl e up down where
      "protect w [uploads] = Inr client"
      "formData req = Inr fd"
      "formData_get fd ''file'' = Some (FormFile fl)"
      "encrypt client (plaintext fl) (uploads, ''file'') = Inr (Data e)"
      "storage_upload w ''uploads'' (storage_key fl) (file_to_upload w fl e) = Inr up"
      "storage_download w ''uploads'' (storage_key fl) = Inr down"
      "data down = None"
      "upload_handler w f req =
         (json (ErrorBody ''Failed to download file'') 500,
          [CallProtect [uploads], CallEncrypt (plaintext fl) (uploads, ''file''),
           CallUpload ''uploads'' (storage_key fl) (file_to_upload w fl e),
           CallDownload ''uploads'' (storage_key fl)], f)"
  | (parse_throws) client fd fl e up down b ex where
      "protect w [uploads] = Inr client"
      "formData req = Inr fd"
      "formData_get fd ''file'' = Some (FormFile fl)"
      "encrypt client (plaintext fl) (uploads, ''file'') = Inr (Data e)"
      "storage_upload w ''uploads'' (storage_key fl) (file_to_upload w fl e) = Inr up"
      "storage_download w ''uploads'' (storage_key fl) = Inr down"
      "data down = Some b"
      "JSON_parse w (blob_text b) = Inl ex"
      "upload_handler w f req =
         (caught ex,
          [CallProtect [uploads], CallEncrypt (plaintext fl) (uploads, ''file''),
           CallUpload ''uploads'' (storage_key fl) (file_to_upload w fl e),
           CallDownload ''uploads'' (storage_key fl), ConsoleError ex], f)"
  | (decrypt_rejects) client fd fl e up down b j ex where
      "protect w [uploads] = Inr client"
      "formData req = Inr fd"
      "formData_get fd ''file'' = Some (FormFile fl)"
      "encrypt client (plaintext fl) (uploads, ''file'') = Inr (Data e)"
      "storage_upload w ''uploads'' (storage_key fl) (file_to_upload w fl e) = Inr up"
      "storage_download w ''uploads'' (storage_key fl) = Inr down"
      "data down = Some b"
      "JSON_parse w (blob_text b) = Inr j"
      "decrypt client j = Inl ex"
      "upload_handler w f req =
         (caught ex,
          [CallProtect [uploads], CallEncrypt (plaintext fl) (uploads, ''file''),
           CallUpload ''uploads'' (storage_key fl) (file_to_upload w fl e),
           CallDownload ''uploads'' (storage_key fl), CallDecrypt j, ConsoleError ex], f)"
  | (decrypt_fails) client fd fl e up down b j m where
      "protect w [uploads] = Inr client"
      "formData req = Inr fd"
      "formData_get fd ''file'' = Some (FormFile fl)"
      "encrypt client (plaintext fl) (uploads, ''file'') = Inr (Data e)"
      "storage_upload w ''uploads'' (storage_key fl) (file_to_upload w fl e) = Inr up"
      "storage_download w ''uploads'' (storage_key fl) = Inr down"
      "data down = Some b"
      "JSON_parse w (blob_text b) = Inr j"
      "decrypt client j = Inr (Failure m)"
      "upload_handler w f req =
         (json (ErrorBody ''Failed to decrypt file'') 500,
          [CallProtect [uploads], CallEncrypt (plaintext fl) (uploads, ''file''),
           CallUpload ''uploads'' (storage_key fl) (file_to_upload w fl e),
           CallDownload ''uploads'' (storage_key fl), CallDecrypt j], f)"
  | (decrypt_null) client fd fl e up down b j where
      "protect w [uploads] = Inr client"
      "formData req = Inr fd"
      "formData_get fd ''file'' = Some (FormFile fl)"
      "encrypt client (plaintext fl) (uploads, ''file'') = Inr (Data e)"
      "storage_upload w ''uploads'' (storage_key fl) (file_to_upload w fl e) = Inr up"
      "storage_download w ''uploads'' (storage_key fl) = Inr down"
      "data down = Some b"
      "JSON_parse w (blob_text b) = Inr j"
      "decrypt client j = Inr (Data None)"
      "upload_handler w f req =
         (caught null_argument,
          [CallProtect [uploads], CallEncrypt (plaintext fl) (uploads, ''file''),
           CallUpload ''uploads'' (storage_key fl) (file_to_upload w fl e),
           CallDownload ''uploads'' (storage_key fl), CallDecrypt j,
           ConsoleError null_argument], f)"
  | (write_rejects) client fd fl e up down b j s ex where
      "protect w [uploads] = Inr client"
      "formData req = Inr fd"
      "formData_get fd ''file'' = Some (FormFile fl)"
      "encrypt client (plaintext fl) (uploads, ''file'') = Inr (Data e)"
      "storage_upload w ''uploads'' (storage_key fl) (file_to_upload w fl e) = Inr up"
      "storage_download w ''uploads'' (storage_key fl) = Inr down"
      "data down = Some b"
      "JSON_parse w (blob_text b) = Inr j"
      "decrypt client j = Inr (Data (Some s))"
      "writeFile f (target_path w fl) (base64_decode s) = Inl ex"
      "upload_handler w f req =
         (caught ex,
          [CallProtect [uploads], CallEncrypt (plaintext fl) (uploads, ''file''),
           CallUpload ''uploads'' (storage_key fl) (file_to_upload w fl e),
           CallDownload ''uploads'' (storage_key fl), CallDecrypt j,
           CallWriteFile (target_path w fl) (base64_decode s), ConsoleError ex], f)"
  | (written) client fd fl e up down b j s f' where
      "protect w [uploads] = Inr client"
      "formData req = Inr fd"
      "formData_get fd ''file'' = Some (FormFile fl)"
      "encrypt client (plaintext fl) (uploads, ''file'') = Inr (Data e)"
      "storage_upload w ''uploads'' (storage_key fl) (file_to_upload w fl e) = Inr up"
      "storage_download w ''uploads'' (storage_key fl) = Inr down"
      "data down = Some b"
      "JSON_parse w (blob_text b) = Inr j"
      "decrypt client j = Inr (Data (Some s))"
      "writeFile f (target_path w fl) (base64_decode s) = Inr f'"
      "upload_handler w f req =
         (uploaded fl,
          [CallProtect [uploads], CallEncrypt (plaintext fl) (uploads, ''file''),
           CallUpload ''uploads'' (storage_key fl) (file_to_upload w fl e),
           CallDownload ''uploads'' (storage_key fl), CallDecrypt j,
           CallWriteFile (target_path w fl) (base64_decode s),
           ConsoleLog (name fl) (type fl) (size_f fl) (length (arrayBuffer fl))
             (length (base64_decode s))], f')"
proof (cases "protect w [uploads]")
  case (Inl ex)
  then show ?thesis by (intro protect_rejects [of ex]) (simp_all add: handler_defs)
next
  case p: (Inr client)
  show ?thesis
  proof (cases "formData req")
    case (Inl ex)
    with p show ?thesis by (intro formData_rejects [of client ex]) (simp_all add: handler_defs)
  next
    case fd: (Inr fd)
    show ?thesis
    proof (cases "formData_get fd ''file''")
      case None
      with p fd show ?thesis by (intro no_file [of client fd]) (simp_all add: handler_defs)
    next
      case (Some v)
      show ?thesis
      proof (cases v)
        case (FormString strv)
        with p fd Some show ?thesis
          by (intro not_a_file [of client fd strv]) (simp_all add: handler_defs)
      next
        case (FormFile fl)
        with Some have g: "formData_get fd ''file'' = Some (FormFile fl)" by simp
        note reached = p fd g
        show ?thesis
        proof (cases "encrypt client (plaintext fl) (uploads, ''file'')")
          case (Inl ex)
          with reached show ?thesis
            by (intro encrypt_rejects [of client fd fl ex]) (simp_all add: handler_defs)
        next
          case (Inr r)
          show ?thesis
          proof (cases r)
            case (Failure m)
            with reached Inr show ?thesis
              by (intro encrypt_fails [of client fd fl m]) (simp_all add: handler_defs)
          next
            case (Data e)
            with Inr have enc: "encrypt client (plaintext fl) (uploads, ''file'') = Inr (Data e)"
              by simp
            note reached = reached enc
            show ?thesis
            proof (cases "storage_upload w ''uploads'' (storage_key fl) (file_to_upload w fl e)")
              case (Inl ex)
              with reached show ?thesis
                by (intro upload_rejects [of client fd fl e ex]) (simp_all add: handler_defs)
            next
              case up: (Inr up)
              note reached = reached up
              show ?thesis
              proof (cases "storage_download w ''uploads'' (storage_key fl)")
                case (Inl ex)
                with reached show ?thesis
                  by (intro download_rejects [of client fd fl e up ex])
                    (simp_all add: handler_defs)
              next
                case down: (Inr down)
                note reached = reached down
                show ?thesis
                proof (cases "data down")
                  case None
                  with reached show ?thesis
                    by (intro download_absent [of client fd fl e up down])
                      (simp_all add: handler_defs)
                next
                  case b: (Some b)
                  note reached = reached b
                  show ?thesis
                  proof (cases "JSON_parse w (blob_text b)")
                    case (Inl ex)
                    with reached show ?thesis
                      by (intro parse_throws [of client fd fl e up down b ex])
                        (simp_all add: handler_defs)
                  next
                    case j: (Inr j)
                    note reached = reached j
                    show ?thesis
                    proof (cases "decrypt client j")
                      case (Inl ex)
                      with reached show ?thesis
                        by (intro decrypt_rejects [of client fd fl e up down b j ex])
                          (simp_all add: handler_defs)
                    next
                      case (Inr r)
                      show ?thesis
                      proof (cases r)
                        case (Failure m)
                        with reached Inr show ?thesis
                          by (intro decrypt_fails [of client fd fl e up down b j m])
                            (simp_all add: handler_defs)
                      next
                        case (Data d)
                        show ?thesis
                        proof (cases d)
                          case None
                          with reached Inr Data show ?thesis
                            by (intro decrypt_null [of client fd fl e up down b j])
                              (simp_all add: handler_defs)
                        next
                          case (Some s)
                          with Inr Data have dec: "decrypt client j = Inr (Data (Some s))"
                            by simp
                          note reached = reached dec
                          show ?thesis
                          proof (cases "writeFile f (target_path w fl) (base64_decode s)")
                            case (Inl ex)
                            with reached show ?thesis
                              by (intro write_rejects [of client fd fl e up down b j s ex])
                                (simp_all add: handler_defs)
                          next
                            case (Inr f')
                            with reached show ?thesis
                              by (intro written [of client fd fl e up down b j s f'])
                                (simp_all add: handler_defs)
                          qed
                        qed
                      qed
                    qed
                  qed
                qed
              qed
            qed
          qed
        qed
      qed
    qed
  qed
qed

section \<open>Paths and the filesystem\<close>




lemma writeFile_files: "writeFile f p buf = Inr f' \<Longrightarrow> files f' p = Some buf"
  by (auto simp: writeFile_def Let_def split: if_splits option.splits)








section \<open>The example inputs, evaluated\<close>

lemmas example_defs = example_world_def example_request_def example_file_def example_fs_def
  fs_without_uploads_def marker_client_def failing_client_def stored_def already_exists_def
  found_def not_found_def formData_get_def new_Blob_def new_File_def json_def bad_input_def
  join_def writeFile_def is_dir_def render_def fs_error_def below_def uploads_def

lemma example_sextets:
  "base64_table 19 = CHR ''T''" "base64_table 22 = CHR ''W''"
  "base64_table 5 = CHR ''F''" "base64_table 46 = CHR ''u''"
  by code_simp+

lemma example_decoded: "base64_decode ''TWFu'' = [77, 97, 110]"
  by code_simp

lemma example_stale: "base64_decode ''Ym9i'' = [98, 111, 98]"
  by code_simp

text \<open>The marker client gives back what it encrypted.\<close>

lemma marker_client_roundtrip:
  "encrypt marker_client x opts = Inr (Data e) \<Longrightarrow> decrypt marker_client e = Inr (Data (Some x))"
  by (auto simp: marker_client_def)

text \<open>
  The run that succeeds: \<^verbatim>\<open>a.txt\<close> with the bytes \<^verbatim>\<open>4d 61 6e\<close>, a store that returns
  the document just uploaded. The answer of the upload, \<open>up\<close>, does not matter.
\<close>

lemma success_run:
  "upload_handler (example_world (Inr marker_client) up (found ''#TWFu''))
     example_fs example_request
   = (uploaded example_file,
      [CallProtect [uploads], CallEncrypt ''TWFu'' (uploads, ''file''),
       CallUpload ''uploads'' ''a.txt.encrypted''
         \<lparr>file_name = ''a.txt.encrypted'', file_type = ''application/json'',
          file_text = ''#TWFu''\<rparr>,
       CallDownload ''uploads'' ''a.txt.encrypted'', CallDecrypt ''#TWFu'',
       CallWriteFile [''app'', ''uploads'', ''a.txt''] [77, 97, 110],
       ConsoleLog ''a.txt'' ''text/plain'' 3 3 3],
      example_fs\<lparr>files := [[''app'', ''uploads'', ''a.txt''] \<mapsto> [77, 97, 110]]\<rparr>)"
  by (simp add: handler_defs example_defs example_sextets example_decoded)

lemma encrypt_failure_run:
  "upload_handler (example_world (Inr failing_client) stored not_found)
     example_fs example_request
   = (json (ErrorBody ''Failed to encrypt file'') 500,
      [CallProtect [uploads], CallEncrypt ''TWFu'' (uploads, ''file'')],
      example_fs)"
  by (simp add: handler_defs example_defs example_sextets)

lemma download_absent_run:
  "upload_handler (example_world (Inr marker_client) stored not_found)
     example_fs example_request
   = (json (ErrorBody ''Failed to download file'') 500,
      [CallProtect [uploads], CallEncrypt ''TWFu'' (uploads, ''file''),
       CallUpload ''uploads'' ''a.txt.encrypted''
         \<lparr>file_name = ''a.txt.encrypted'', file_type = ''application/json'',
          file_text = ''#TWFu''\<rparr>,
       CallDownload ''uploads'' ''a.txt.encrypted''],
      example_fs)"
  by (simp add: handler_defs example_defs example_sextets)

lemma decrypt_failure_run:
  "upload_handler (example_world (Inr marker_client) stored (found ''TWFu''))
     example_fs example_request
   = (json (ErrorBody ''Failed to decrypt file'') 500,
      [CallProtect [uploads], CallEncrypt ''TWFu'' (uploads, ''file''),
       CallUpload ''uploads'' ''a.txt.encrypted''
         \<lparr>file_name = ''a.txt.encrypted'', file_type = ''application/json'',
          file_text = ''#TWFu''\<rparr>,
       CallDownload ''uploads'' ''a.txt.encrypted'', CallDecrypt ''TWFu''],
      example_fs)"
  by (simp add: handler_defs example_defs example_sextets)

lemma no_file_run:
  "upload_handler (example_world (Inr marker_client) stored not_found)
     example_fs \<lparr>formData = Inr []\<rparr>
   = (bad_input, [CallProtect [uploads]], example_fs)"
  by (simp add: handler_defs example_world_def formData_get_def)

lemma missing_directory_run:
  "upload_handler (example_world (Inr marker_client) stored (found ''#TWFu''))
     fs_without_uploads example_request
   = (caught (fs_error ''ENOENT: no such file or directory'' [''app'', ''uploads'', ''a.txt'']),
      [CallProtect [uploads], CallEncrypt ''TWFu'' (uploads, ''file''),
       CallUpload ''uploads'' ''a.txt.encrypted''
         \<lparr>file_name = ''a.txt.encrypted'', file_type = ''application/json'',
          file_text = ''#TWFu''\<rparr>,
       CallDownload ''uploads'' ''a.txt.encrypted'', CallDecrypt ''#TWFu'',
       CallWriteFile [''app'', ''uploads'', ''a.txt''] [77, 97, 110],
       ConsoleError
         (fs_error ''ENOENT: no such file or directory'' [''app'', ''uploads'', ''a.txt''])],
      fs_without_uploads)"
  by (simp add: handler_defs example_defs example_sextets example_decoded)

text \<open>
  With no \<^verbatim>\<open>uploads\<close> directory, the name \<^verbatim>\<open>../x\<close> is written as \<^verbatim>\<open>x\<close> in the working
  directory: \<^verbatim>\<open>join\<close> resolves the \<^verbatim>\<open>..\<close> before the filesystem sees the path.
\<close>

lemma dot_dot_name_run:
  "status (response_of (upload_handler
        (example_world (Inr marker_client) stored (found ''#TWFu''))
        fs_without_uploads
        \<lparr>formData = Inr [(''file'', FormFile (example_file\<lparr>name := ''../x''\<rparr>))]\<rparr>)) = 200
   \<and> files (fs_of (upload_handler
        (example_world (Inr marker_client) stored (found ''#TWFu''))
        fs_without_uploads
        \<lparr>formData = Inr [(''file'', FormFile (example_file\<lparr>name := ''../x''\<rparr>))]\<rparr>))
        [''app'', ''x''] = Some [77, 97, 110]"
  by (simp add: handler_defs run_defs example_defs example_decoded)

section \<open>The claims\<close>

text \<open>
  The bytes that reach the local file are the bytes of the upload whenever the download
  returns the document that this run uploaded and the client decrypts it to the text it
  encrypted: base64 decoding inverts the encoding, and \<^verbatim>\<open>JSON.parse\<close> inverts
  \<^verbatim>\<open>JSON.stringify\<close> on the payload.
\<close>

lemma written_bytes_equal_upload:
  assumes "protect w [uploads] = Inr client"
      and "formData req = Inr fd"
      and "formData_get fd ''file'' = Some (FormFile file)"
      and "encrypt client (plaintext file) (uploads, ''file'') = Inr (Data e)"
      and "storage_download w ''uploads'' (storage_key file) = Inr down"
      and "data down = Some b"
      and "blob_text b = JSON_stringify w e"
      and "JSON_parse w (JSON_stringify w e) = Inr e"
      and "decrypt client e = Inr (Data (Some (plaintext file)))"
      and "status (response_of (upload_handler w f req)) = 200"
  shows "files (fs_of (upload_handler w f req)) (target_path w file) = Some (arrayBuffer file)"
  using assms
  by (cases rule: upload_handler_cases [of w f req])
     (auto simp: run_defs json_def bad_input_def base64_roundtrip dest: writeFile_files)

text \<open>
  Claim C1. For every upload that completes with 200, the bytes written to
  \<^verbatim>\<open>uploads/<name>\<close> are the bytes uploaded, assuming only that the client decrypts
  what it encrypted. The handler does not read the \<^verbatim>\<open>error\<close> of the upload, so this
  fails when the store rejects the new document and still holds an older one under the
  same key: \<^verbatim>\<open>a.txt\<close> with the bytes \<^verbatim>\<open>4d 61 6e\<close> is uploaded, the store answers
  \<^verbatim>\<open>The resource already exists\<close>, the download returns the older document (the
  encryption of \<^verbatim>\<open>62 6f 62\<close>), and the handler answers 200 and writes the older bytes.
\<close>

theorem stale_document_written_with_200:
  "status (response_of (upload_handler
      (example_world (Inr marker_client) already_exists (found ''#Ym9i''))
      example_fs example_request)) = 200
   \<and> files (fs_of (upload_handler
      (example_world (Inr marker_client) already_exists (found ''#Ym9i''))
      example_fs example_request)) [''app'', ''uploads'', ''a.txt''] = Some [98, 111, 98]
   \<and> arrayBuffer example_file = [77, 97, 110]"
  by (simp add: handler_defs run_defs example_defs example_stale)

text \<open>
  Claim C2. Every upload to the object store that a run makes goes to the bucket
  \<^verbatim>\<open>uploads\<close> under the key \<^verbatim>\<open><name>.encrypted\<close>, and its body is a file of type
  \<^verbatim>\<open>application/json\<close> whose text is \<^verbatim>\<open>JSON.stringify\<close> of the payload that the
  client returned for the base64 text of the uploaded file; it is the only upload of
  the run. The bytes of the file themselves are never the body.
\<close>

theorem store_write_is_envelope_json:
  assumes "CallUpload bucket key payload \<in> set (calls_of (upload_handler w f req))"
  shows "\<exists>client fd file e.
           protect w [uploads] = Inr client \<and> formData req = Inr fd
         \<and> formData_get fd ''file'' = Some (FormFile file)
         \<and> encrypt client (plaintext file) (uploads, ''file'') = Inr (Data e)
         \<and> bucket = ''uploads''
         \<and> key = name file @ ''.encrypted''
         \<and> payload = \<lparr>file_name = name file @ ''.encrypted'', file_type = ''application/json'',
                       file_text = JSON_stringify w e\<rparr>
         \<and> filter is_upload (calls_of (upload_handler w f req))
             = [CallUpload bucket key payload]"
  using assms
  by (cases rule: upload_handler_cases [of w f req])
     (auto simp: run_defs new_File_def new_Blob_def)

theorem store_write_is_envelope_json_witness:
  "CallUpload ''uploads'' ''a.txt.encrypted''
      \<lparr>file_name = ''a.txt.encrypted'', file_type = ''application/json'',
       file_text = ''#TWFu''\<rparr>
     \<in> set (calls_of (upload_handler (example_world (Inr marker_client) stored (found ''#TWFu''))
               example_fs example_request))
   \<and> (\<exists>client fd file e.
         protect (example_world (Inr marker_client) stored (found ''#TWFu'')) [uploads]
           = Inr client
       \<and> formData example_request = Inr fd
       \<and> formData_get fd ''file'' = Some (FormFile file)
       \<and> encrypt client (plaintext file) (uploads, ''file'') = Inr (Data e)
       \<and> ''a.txt.encrypted'' = name file @ ''.encrypted''
       \<and> ''#TWFu'' = JSON_stringify (example_world (Inr marker_client) stored (found ''#TWFu'')) e)
   \<and> filter is_upload
        (calls_of (upload_handler (example_world (Inr marker_client) stored (found ''#TWFu''))
           example_fs example_request))
      = [CallUpload ''uploads'' ''a.txt.encrypted''
           \<lparr>file_name = ''a.txt.encrypted'', file_type = ''application/json'',
            file_text = ''#TWFu''\<rparr>]"
proof -
  let ?w = "example_world (Inr marker_client) stored (found ''#TWFu'')"
  let ?body = "\<lparr>file_name = ''a.txt.encrypted'', file_type = ''application/json'',
                 file_text = ''#TWFu''\<rparr>"
  have h: "CallUpload ''uploads'' ''a.txt.encrypted'' ?body
             \<in> set (calls_of (upload_handler ?w example_fs example_request))"
    by (simp add: success_run run_defs)
  from store_write_is_envelope_json [OF h] obtain client fd fl e where
    steps: "protect ?w [uploads] = Inr client" "formData example_request = Inr fd"
      "formData_get fd ''file'' = Some (FormFile fl)"
      "encrypt client (plaintext fl) (uploads, ''file'') = Inr (Data e)"
      "''a.txt.encrypted'' = name fl @ ''.encrypted''"
    and body: "?body = \<lparr>file_name = name fl @ ''.encrypted'',
                  file_type = ''application/json'', file_text = JSON_stringify ?w e\<rparr>"
    and only: "filter is_upload (calls_of (upload_handler ?w example_fs example_request))
                 = [CallUpload ''uploads'' ''a.txt.encrypted'' ?body]"
    by blast
  from body have "''#TWFu'' = JSON_stringify ?w e"
    by simp
  with steps have "\<exists>client fd file e.
         protect ?w [uploads] = Inr client
       \<and> formData example_request = Inr fd
       \<and> formData_get fd ''file'' = Some (FormFile file)
       \<and> encrypt client (plaintext file) (uploads, ''file'') = Inr (Data e)
       \<and> ''a.txt.encrypted'' = name file @ ''.encrypted''
       \<and> ''#TWFu'' = JSON_stringify ?w e"
    by blast
  with h only show ?thesis
    by blast
qed

text \<open>
  Claim C3. A request whose form data has no \<^verbatim>\<open>file\<close> entry, or a string there, is
  answered 400 before any external call. The handler awaits \<^verbatim>\<open>protect(...)\<close>, the
  initialisation of the encryption client, before it reads the form data: when that
  rejects, the same request is answered 500 by the \<^verbatim>\<open>catch\<close>.
\<close>

theorem no_file_when_protect_rejects:
  "formData_get [] ''file'' = None
   \<and> response_of (upload_handler
        (example_world (Inl (Error ''client initialisation failed'')) stored not_found)
        example_fs \<lparr>formData = Inr []\<rparr>)
      = json (ErrorDetailsBody ''Failed to upload file'' ''client initialisation failed'') 500
   \<and> calls_of (upload_handler
        (example_world (Inl (Error ''client initialisation failed'')) stored not_found)
        example_fs \<lparr>formData = Inr []\<rparr>)
      = [CallProtect [uploads], ConsoleError (Error ''client initialisation failed'')]"
  by (simp add: handler_defs run_defs example_defs)

text \<open>
  Claim C3, amended. The handler initialises the encryption client first. When that
  succeeds and the body parses as form data with no \<^verbatim>\<open>file\<close> entry, or with a string
  there, the response is 400 with \<^verbatim>\<open>No file provided or invalid file format\<close>; the
  initialisation is the only call of the run (no encrypt, no decrypt, no upload, no
  download, no write), and the filesystem is unchanged. When the initialisation rejects,
  whatever the form data, the response is the 500 of the \<^verbatim>\<open>catch\<close> with the message of
  the exception as \<^verbatim>\<open>details\<close>; the initialisation is again the only external call and
  the filesystem is unchanged.
\<close>

theorem no_file_is_400:
  "(\<forall>client fd.
       protect w [uploads] = Inr client \<and> formData req = Inr fd
     \<and> (formData_get fd ''file'' = None
        \<or> (\<exists>s. formData_get fd ''file'' = Some (FormString s)))
     \<longrightarrow> response_of (upload_handler w f req) =
           json (ErrorBody ''No file provided or invalid file format'') 400
       \<and> calls_of (upload_handler w f req) = [CallProtect [uploads]]
       \<and> fs_of (upload_handler w f req) = f)
   \<and> (\<forall>ex.
       protect w [uploads] = Inl ex
     \<longrightarrow> response_of (upload_handler w f req) =
           json (ErrorDetailsBody ''Failed to upload file'' (message ex)) 500
       \<and> calls_of (upload_handler w f req) = [CallProtect [uploads], ConsoleError ex]
       \<and> fs_of (upload_handler w f req) = f)"
  by (cases rule: upload_handler_cases [of w f req]) (auto simp: run_defs bad_input_def)

theorem no_file_is_400_witness:
  "protect (example_world (Inr marker_client) stored not_found) [uploads] = Inr marker_client
   \<and> formData \<lparr>formData = Inr []\<rparr> = Inr []
   \<and> formData_get [] ''file'' = None
   \<and> response_of (upload_handler (example_world (Inr marker_client) stored not_found)
         example_fs \<lparr>formData = Inr []\<rparr>)
       = json (ErrorBody ''No file provided or invalid file format'') 400
   \<and> calls_of (upload_handler (example_world (Inr marker_client) stored not_found)
         example_fs \<lparr>formData = Inr []\<rparr>) = [CallProtect [uploads]]
   \<and> fs_of (upload_handler (example_world (Inr marker_client) stored not_found)
         example_fs \<lparr>formData = Inr []\<rparr>) = example_fs
   \<and> protect (example_world (Inl (Error ''no credentials'')) stored not_found) [uploads]
       = Inl (Error ''no credentials'')
   \<and> response_of (upload_handler (example_world (Inl (Error ''no credentials'')) stored not_found)
         example_fs \<lparr>formData = Inr []\<rparr>)
       = json (ErrorDetailsBody ''Failed to upload file'' ''no credentials'') 500
   \<and> calls_of (upload_handler (example_world (Inl (Error ''no credentials'')) stored not_found)
         example_fs \<lparr>formData = Inr []\<rparr>)
       = [CallProtect [uploads], ConsoleError (Error ''no credentials'')]
   \<and> fs_of (upload_handler (example_world (Inl (Error ''no credentials'')) stored not_found)
         example_fs \<lparr>formData = Inr []\<rparr>) = example_fs"
proof -
  let ?w = "example_world (Inr marker_client) stored not_found"
  let ?v = "example_world (Inl (Error ''no credentials'')) stored not_found"
  let ?req = "\<lparr>formData = Inr []\<rparr>"
  have h1: "protect ?w [uploads] = Inr marker_client"
    by (simp add: example_world_def)
  have h2: "formData ?req = Inr []"
    by simp
  have h3: "formData_get [] ''file'' = None"
    by (simp add: formData_get_def)
  have h4: "protect ?v [uploads] = Inl (Error ''no credentials'')"
    by (simp add: example_world_def)
  from no_file_is_400 [of ?w ?req example_fs] h1 h2 h3
  have answered: "response_of (upload_handler ?w example_fs ?req) =
           json (ErrorBody ''No file provided or invalid file format'') 400
       \<and> calls_of (upload_handler ?w example_fs ?req) = [CallProtect [uploads]]
       \<and> fs_of (upload_handler ?w example_fs ?req) = example_fs"
    by blast
  from no_file_is_400 [of ?v ?req example_fs] h4
  have "response_of (upload_handler ?v example_fs ?req) =
           json (ErrorDetailsBody ''Failed to upload file'' (message (Error ''no credentials''))) 500
       \<and> calls_of (upload_handler ?v example_fs ?req)
           = [CallProtect [uploads], ConsoleError (Error ''no credentials'')]
       \<and> fs_of (upload_handler ?v example_fs ?req) = example_fs"
    by blast
  with answered h1 h2 h3 h4 show ?thesis
    by simp
qed

text \<open>
  Claim C4. When the encryption client answers the handler's \<^verbatim>\<open>encrypt\<close> call with a
  failure, the response is 500 with the message \<^verbatim>\<open>Failed to encrypt file\<close>; the calls
  of the run are the client's initialisation and that \<^verbatim>\<open>encrypt\<close> call and nothing
  else (no upload, no download, no decrypt, no write), and the filesystem is unchanged.
\<close>

theorem encrypt_failure_is_500:
  assumes "protect w [uploads] = Inr client"
      and "CallEncrypt s opts \<in> set (calls_of (upload_handler w f req))"
      and "encrypt client s opts = Inr (Failure m)"
  shows "response_of (upload_handler w f req) = json (ErrorBody ''Failed to encrypt file'') 500
       \<and> calls_of (upload_handler w f req) = [CallProtect [uploads], CallEncrypt s opts]
       \<and> fs_of (upload_handler w f req) = f"
  using assms
  by (cases rule: upload_handler_cases [of w f req]) (auto simp: run_defs)

theorem encrypt_failure_is_500_witness:
  "protect (example_world (Inr failing_client) stored not_found) [uploads] = Inr failing_client
   \<and> CallEncrypt ''TWFu'' (uploads, ''file'')
       \<in> set (calls_of (upload_handler (example_world (Inr failing_client) stored not_found)
                 example_fs example_request))
   \<and> encrypt failing_client ''TWFu'' (uploads, ''file'') = Inr (Failure ''encryption failed'')
   \<and> response_of (upload_handler (example_world (Inr failing_client) stored not_found)
         example_fs example_request) = json (ErrorBody ''Failed to encrypt file'') 500
   \<and> calls_of (upload_handler (example_world (Inr failing_client) stored not_found)
         example_fs example_request)
       = [CallProtect [uploads], CallEncrypt ''TWFu'' (uploads, ''file'')]
   \<and> fs_of (upload_handler (example_world (Inr failing_client) stored not_found)
         example_fs example_request) = example_fs"
proof -
  let ?w = "example_world (Inr failing_client) stored not_found"
  have h1: "protect ?w [uploads] = Inr failing_client"
    by (simp add: example_world_def)
  have h2: "CallEncrypt ''TWFu'' (uploads, ''file'')
              \<in> set (calls_of (upload_handler ?w example_fs example_request))"
    by (simp add: encrypt_failure_run run_defs)
  have h3: "encrypt failing_client ''TWFu'' (uploads, ''file'')
              = Inr (Failure ''encryption failed'')"
    by (simp add: failing_client_def)
  from encrypt_failure_is_500 [OF h1 h2 h3] h1 h2 h3 show ?thesis by simp
qed

text \<open>
  Claim C5. When the upload to the object store returns an error, the handler does not
  stop: the call right after the upload is the download of the same key, and the whole
  run (response, calls and filesystem) is the run of the same request in the world where
  the upload succeeded. Only what the download returns decides how the run goes on.
\<close>

theorem upload_error_is_not_checked:
  assumes "CallUpload bucket key payload \<in> set (calls_of (upload_handler w f req))"
      and "storage_upload w bucket key payload = Inr r"
      and "error r = Some msg"
  shows "take 2 (drop 2 (calls_of (upload_handler w f req))) =
           [CallUpload bucket key payload, CallDownload bucket key]
       \<and> upload_handler w f req =
           upload_handler
             (w\<lparr>storage_upload := \<lambda>b k p. Inr \<lparr>data = Some k, error = None\<rparr>\<rparr>) f req"
  using assms
  by (cases rule: upload_handler_cases [of w f req])
     (auto simp: run_defs handler_defs)

theorem upload_error_is_not_checked_witness:
  "CallUpload ''uploads'' ''a.txt.encrypted''
      \<lparr>file_name = ''a.txt.encrypted'', file_type = ''application/json'',
       file_text = ''#TWFu''\<rparr>
     \<in> set (calls_of (upload_handler
               (example_world (Inr marker_client) already_exists (found ''#TWFu''))
               example_fs example_request))
   \<and> storage_upload (example_world (Inr marker_client) already_exists (found ''#TWFu''))
        ''uploads'' ''a.txt.encrypted''
        \<lparr>file_name = ''a.txt.encrypted'', file_type = ''application/json'',
         file_text = ''#TWFu''\<rparr> = Inr already_exists
   \<and> error already_exists = Some ''The resource already exists''
   \<and> take 2 (drop 2 (calls_of (upload_handler
        (example_world (Inr marker_client) already_exists (found ''#TWFu''))
        example_fs example_request)))
      = [CallUpload ''uploads'' ''a.txt.encrypted''
           \<lparr>file_name = ''a.txt.encrypted'', file_type = ''application/json'',
            file_text = ''#TWFu''\<rparr>,
         CallDownload ''uploads'' ''a.txt.encrypted'']
   \<and> upload_handler (example_world (Inr marker_client) already_exists (found ''#TWFu''))
        example_fs example_request
      = upload_handler
          ((example_world (Inr marker_client) already_exists (found ''#TWFu''))
             \<lparr>storage_upload := \<lambda>b k p. Inr \<lparr>data = Some k, error = None\<rparr>\<rparr>)
          example_fs example_request"
proof -
  let ?w = "example_world (Inr marker_client) already_exists (found ''#TWFu'')"
  let ?body = "\<lparr>file_name = ''a.txt.encrypted'', file_type = ''application/json'',
                 file_text = ''#TWFu''\<rparr>"
  have h1: "CallUpload ''uploads'' ''a.txt.encrypted'' ?body
              \<in> set (calls_of (upload_handler ?w example_fs example_request))"
    by (simp add: success_run run_defs)
  have h2: "storage_upload ?w ''uploads'' ''a.txt.encrypted'' ?body = Inr already_exists"
    by (simp add: example_world_def)
  have h3: "error already_exists = Some ''The resource already exists''"
    by (simp add: already_exists_def)
  from upload_error_is_not_checked [OF h1 h2 h3] h1 h2 h3 show ?thesis
    by blast
qed

text \<open>
  Claim C6. When the download that the handler makes returns no object, the response is
  500 with \<^verbatim>\<open>Failed to download file\<close>; the download is the last call of the run, no
  decrypt call and no write is made, and the filesystem is unchanged.
\<close>

theorem download_absent_is_500:
  assumes "CallDownload bucket key \<in> set (calls_of (upload_handler w f req))"
      and "storage_download w bucket key = Inr r"
      and "data r = None"
  shows "response_of (upload_handler w f req) = json (ErrorBody ''Failed to download file'') 500
       \<and> (\<forall>c \<in> set (calls_of (upload_handler w f req)). \<not> is_decrypt c \<and> \<not> is_writeFile c)
       \<and> last (calls_of (upload_handler w f req)) = CallDownload bucket key
       \<and> fs_of (upload_handler w f req) = f"
  using assms
  by (cases rule: upload_handler_cases [of w f req]) (auto simp: run_defs)

theorem download_absent_is_500_witness:
  "CallDownload ''uploads'' ''a.txt.encrypted''
     \<in> set (calls_of (upload_handler (example_world (Inr marker_client) stored not_found)
               example_fs example_request))
   \<and> storage_download (example_world (Inr marker_client) stored not_found)
        ''uploads'' ''a.txt.encrypted'' = Inr not_found
   \<and> data not_found = None
   \<and> response_of (upload_handler (example_world (Inr marker_client) stored not_found)
        example_fs example_request) = json (ErrorBody ''Failed to download file'') 500
   \<and> last (calls_of (upload_handler (example_world (Inr marker_client) stored not_found)
        example_fs example_request)) = CallDownload ''uploads'' ''a.txt.encrypted''
   \<and> fs_of (upload_handler (example_world (Inr marker_client) stored not_found)
        example_fs example_request) = example_fs"
proof -
  let ?w = "example_world (Inr marker_client) stored not_found"
  have h1: "CallDownload ''uploads'' ''a.txt.encrypted''
              \<in> set (calls_of (upload_handler ?w example_fs example_request))"
    by (simp add: download_absent_run run_defs)
  have h2: "storage_download ?w ''uploads'' ''a.txt.encrypted'' = Inr not_found"
    by (simp add: example_world_def)
  have h3: "data not_found = None"
    by (simp add: not_found_def)
  from download_absent_is_500 [OF h1 h2 h3] h1 h2 h3 show ?thesis
    by blast
qed

text \<open>
  Claim C7. When the client answers the handler's \<^verbatim>\<open>decrypt\<close> call with a failure, the
  response is 500 with \<^verbatim>\<open>Failed to decrypt file\<close>; the decrypt call is the last call of
  the run, no write is made, and the filesystem is unchanged.
\<close>

theorem decrypt_failure_is_500:
  assumes "protect w [uploads] = Inr client"
      and "CallDecrypt j \<in> set (calls_of (upload_handler w f req))"
      and "decrypt client j = Inr (Failure m)"
  shows "response_of (upload_handler w f req) = json (ErrorBody ''Failed to decrypt file'') 500
       \<and> (\<forall>c \<in> set (calls_of (upload_handler w f req)). \<not> is_writeFile c)
       \<and> last (calls_of (upload_handler w f req)) = CallDecrypt j
       \<and> fs_of (upload_handler w f req) = f"
  using assms
  by (cases rule: upload_handler_cases [of w f req]) (auto simp: run_defs)

theorem decrypt_failure_is_500_witness:
  "protect (example_world (Inr marker_client) stored (found ''TWFu'')) [uploads]
     = Inr marker_client
   \<and> CallDecrypt ''TWFu''
       \<in> set (calls_of (upload_handler (example_world (Inr marker_client) stored (found ''TWFu''))
                 example_fs example_request))
   \<and> decrypt marker_client ''TWFu'' = Inr (Failure ''not an encrypted payload'')
   \<and> response_of (upload_handler (example_world (Inr marker_client) stored (found ''TWFu''))
        example_fs example_request) = json (ErrorBody ''Failed to decrypt file'') 500
   \<and> last (calls_of (upload_handler (example_world (Inr marker_client) stored (found ''TWFu''))
        example_fs example_request)) = CallDecrypt ''TWFu''
   \<and> fs_of (upload_handler (example_world (Inr marker_client) stored (found ''TWFu''))
        example_fs example_request) = example_fs"
proof -
  let ?w = "example_world (Inr marker_client) stored (found ''TWFu'')"
  have h1: "protect ?w [uploads] = Inr marker_client"
    by (simp add: example_world_def)
  have h2: "CallDecrypt ''TWFu''
              \<in> set (calls_of (upload_handler ?w example_fs example_request))"
    by (simp add: decrypt_failure_run run_defs)
  have h3: "decrypt marker_client ''TWFu'' = Inr (Failure ''not an encrypted payload'')"
    by (simp add: marker_client_def)
  from decrypt_failure_is_500 [OF h1 h2 h3] h1 h2 h3 show ?thesis
    by blast
qed

text \<open>
  Claim C8. When all six steps succeed (the file is read, the client encrypts, the store
  takes the upload, the download returns an object that parses, the client decrypts to a
  text, the file is written), the response has status 200 and the body
  \<^verbatim>\<open>{ message: "File uploaded successfully", file: { name, type, size } }\<close> with the
  name, type and size of the uploaded file, and nothing else: no field holds the content.
\<close>

theorem success_response:
  assumes "protect w [uploads] = Inr client"
      and "formData req = Inr fd"
      and "formData_get fd ''file'' = Some (FormFile file)"
      and "encrypt client (plaintext file) (uploads, ''file'') = Inr (Data e)"
      and "storage_upload w ''uploads'' (storage_key file) (file_to_upload w file e) = Inr up"
      and "storage_download w ''uploads'' (storage_key file) = Inr down"
      and "data down = Some b"
      and "JSON_parse w (blob_text b) = Inr j"
      and "decrypt client j = Inr (Data (Some s))"
      and "writeFile f (target_path w file) (base64_decode s) = Inr f'"
  shows "response_of (upload_handler w f req) =
           \<lparr>status = 200,
            body = UploadedBody ''File uploaded successfully''
                     (name file) (type file) (size_f file)\<rparr>"
  using assms
  by (cases rule: upload_handler_cases [of w f req]) (auto simp: run_defs json_def)

theorem success_response_witness:
  "protect (example_world (Inr marker_client) stored (found ''#TWFu'')) [uploads]
     = Inr marker_client
   \<and> formData example_request = Inr [(''file'', FormFile example_file)]
   \<and> formData_get [(''file'', FormFile example_file)] ''file'' = Some (FormFile example_file)
   \<and> encrypt marker_client (plaintext example_file) (uploads, ''file'') = Inr (Data ''#TWFu'')
   \<and> storage_upload (example_world (Inr marker_client) stored (found ''#TWFu''))
        ''uploads'' (storage_key example_file)
        (file_to_upload (example_world (Inr marker_client) stored (found ''#TWFu''))
           example_file ''#TWFu'') = Inr stored
   \<and> storage_download (example_world (Inr marker_client) stored (found ''#TWFu''))
        ''uploads'' (storage_key example_file) = Inr (found ''#TWFu'')
   \<and> data (found ''#TWFu'') = Some (new_Blob ''#TWFu'' ''application/json'')
   \<and> JSON_parse (example_world (Inr marker_client) stored (found ''#TWFu''))
        (blob_text (new_Blob ''#TWFu'' ''application/json'')) = Inr ''#TWFu''
   \<and> decrypt marker_client ''#TWFu'' = Inr (Data (Some ''TWFu''))
   \<and> writeFile example_fs
        (target_path (example_world (Inr marker_client) stored (found ''#TWFu'')) example_file)
        (base64_decode ''TWFu'')
      = Inr (example_fs\<lparr>files := [[''app'', ''uploads'', ''a.txt''] \<mapsto> [77, 97, 110]]\<rparr>)
   \<and> response_of (upload_handler (example_world (Inr marker_client) stored (found ''#TWFu''))
        example_fs example_request)
      = \<lparr>status = 200,
         body = UploadedBody ''File uploaded successfully'' ''a.txt'' ''text/plain'' 3\<rparr>"
proof -
  let ?w = "example_world (Inr marker_client) stored (found ''#TWFu'')"
  have h1: "protect ?w [uploads] = Inr marker_client"
    by (simp add: example_world_def)
  have h2: "formData example_request = Inr [(''file'', FormFile example_file)]"
    by (simp add: example_request_def)
  have h3: "formData_get [(''file'', FormFile example_file)] ''file''
              = Some (FormFile example_file)"
    by (simp add: formData_get_def)
  have h4: "encrypt marker_client (plaintext example_file) (uploads, ''file'')
              = Inr (Data ''#TWFu'')"
    by (simp add: marker_client_def example_file_def example_sextets)
  have h5: "storage_upload ?w ''uploads'' (storage_key example_file)
              (file_to_upload ?w example_file ''#TWFu'') = Inr stored"
    by (simp add: example_world_def)
  have h6: "storage_download ?w ''uploads'' (storage_key example_file) = Inr (found ''#TWFu'')"
    by (simp add: example_world_def)
  have h7: "data (found ''#TWFu'') = Some (new_Blob ''#TWFu'' ''application/json'')"
    by (simp add: found_def)
  have h8: "JSON_parse ?w (blob_text (new_Blob ''#TWFu'' ''application/json'')) = Inr ''#TWFu''"
    by (simp add: example_world_def new_Blob_def)
  have h9: "decrypt marker_client ''#TWFu'' = Inr (Data (Some ''TWFu''))"
    by (simp add: marker_client_def)
  have h10: "writeFile example_fs (target_path ?w example_file) (base64_decode ''TWFu'')
      = Inr (example_fs\<lparr>files := [[''app'', ''uploads'', ''a.txt''] \<mapsto> [77, 97, 110]]\<rparr>)"
    by (simp add: example_defs example_decoded)
  have "name example_file = ''a.txt''" "type example_file = ''text/plain''"
    "size_f example_file = 3"
    by (simp_all add: example_file_def)
  with success_response [OF h1 h2 h3 h4 h5 h6 h7 h8 h9 h10] h1 h2 h3 h4 h5 h6 h7 h8 h9 h10
  show ?thesis
    by simp
qed







end
